theory Spec2Isabelle
  imports Main "HOL-Library.Word" "HOL-Library.Product_Lexorder" "HOL-Library.Multiset"
begin

section \<open>Values\<close>

type_synonym byte = "8 word"

text \<open>
  A Python \<open>datetime\<close> in UTC, as \<open>datetime.datetime.now(pytz.utc)\<close> returns it and as
  a \<open>TIMESTAMPTZ\<close> column gives it back.
\<close>

record datetime =
  year :: nat
  month :: nat
  day :: nat
  hour :: nat
  minute :: nat
  second :: nat
  microsecond :: nat

definition valid_datetime :: "datetime \<Rightarrow> bool" where
  "valid_datetime t \<longleftrightarrow>
     1 \<le> year t \<and> year t \<le> 9999 \<and> 1 \<le> month t \<and> month t \<le> 12 \<and>
     1 \<le> day t \<and> day t \<le> 31 \<and> hour t < 24 \<and> minute t < 60 \<and> second t < 60 \<and>
     microsecond t < 1000000"

text \<open>Two UTC datetimes compare field by field, the year first.\<close>

definition dt_key :: "datetime \<Rightarrow> nat \<times> nat \<times> nat \<times> nat \<times> nat \<times> nat \<times> nat" where
  "dt_key t = (year t, month t, day t, hour t, minute t, second t, microsecond t)"

subsection \<open>Formatting numbers and timestamps\<close>

definition digit_char :: "nat \<Rightarrow> char" where
  "digit_char d = ''0123456789'' ! d"

fun dec :: "nat \<Rightarrow> string" where
  "dec n = (if n < 10 then [digit_char n] else dec (n div 10) @ [digit_char (n mod 10)])"

declare dec.simps [simp del]

definition zfill :: "nat \<Rightarrow> string \<Rightarrow> string" where
  "zfill w s = replicate (w - length s) (CHR ''0'') @ s"

text \<open>\<open>utc_now.strftime('%Y%m%d_%H%M%S_%f')\<close>: every field zero-padded to its width.\<close>

definition strftime :: "datetime \<Rightarrow> string" where
  "strftime t =
     zfill 4 (dec (year t)) @ zfill 2 (dec (month t)) @ zfill 2 (dec (day t)) @ ''_'' @
     zfill 2 (dec (hour t)) @ zfill 2 (dec (minute t)) @ zfill 2 (dec (second t)) @ ''_'' @
     zfill 6 (dec (microsecond t))"

text \<open>
  \<open>record["captured_at"].isoformat()\<close> on an aware UTC datetime: the fraction is left out
  when the microsecond is zero.
\<close>

definition isoformat :: "datetime \<Rightarrow> string" where
  "isoformat t =
     zfill 4 (dec (year t)) @ ''-'' @ zfill 2 (dec (month t)) @ ''-'' @ zfill 2 (dec (day t)) @
     ''T'' @ zfill 2 (dec (hour t)) @ '':'' @ zfill 2 (dec (minute t)) @ '':'' @
     zfill 2 (dec (second t)) @
     (if microsecond t = 0 then [] else ''.'' @ zfill 6 (dec (microsecond t))) @ ''+00:00''"

subsection \<open>Exceptions and responses\<close>

text \<open>
  \<open>HTTPException status detail\<close> is FastAPI's exception; \<open>Failure text\<close> is any other
  exception (an asyncpg or blob-client error), with the text \<open>str(e)\<close> gives for it.
\<close>

datatype exn = HTTPException nat string | Failure string

text \<open>\<open>str(e)\<close>, as \<open>f"{e}"\<close> and \<open>str(e)\<close> use it (Starlette prints status and detail).\<close>

fun str_exc :: "exn \<Rightarrow> string" where
  "str_exc (HTTPException code detail) = dec code @ '': '' @ detail"
| "str_exc (Failure text) = text"

datatype content =
    Message string
  | Uploaded string string
  | Trigger bool
  | Images "(string \<times> string) list"
  | Error string
  | Detail string
  | PlainText string

record response =
  status_code :: nat
  content :: content

definition JSONResponse :: "content \<Rightarrow> nat \<Rightarrow> response" where
  "JSONResponse c code = \<lparr>status_code = code, content = c\<rparr>"

section \<open>The collaborators: database, blob store, console\<close>

record image_row =
  row_id :: nat
  image_url :: string
  captured_at :: datetime

text \<open>
  A table is \<open>None\<close> until it is created. \<open>camera_control\<close> is a list of rows
  \<open>(id, trigger_capture)\<close>; \<open>motion_images_id_seq\<close> is the sequence behind \<open>SERIAL\<close>.
\<close>

record database =
  motion_images :: "image_row list option"
  motion_images_id_seq :: nat
  camera_control :: "(int \<times> bool) list option"

datatype statement =
    CreateTables
  | UpdateTrigger bool
  | InsertImage string datetime

datatype access = Public | Private

record blob =
  pathname :: string
  data :: "byte list"
  blob_access :: access

datatype event =
    Connect
  | Execute statement
  | Fetchrow
  | Fetch
  | Close
  | Put string "byte list" access

text \<open>
  The world a request runs in: the database, the blob store, the number of connections
  that are open, the calls made to the collaborators so far, and what was printed.
\<close>

record world =
  db :: database
  blobs :: "blob list"
  open_conns :: nat
  trace :: "event list"
  console :: "string list"

text \<open>
  What the collaborators do during one request: the clock reading, whether the blob write
  returns a URL (\<open>Inr\<close>) or raises (\<open>Inl\<close>, with the error's text), and for each database
  call whether it raises (\<open>Some text\<close>). Closing a connection does not fail. The
  exception with which the framework's \<open>APIKeyHeader\<close> refuses a request that carries no
  key is the framework's own, so it is part of the environment as well: no line of the
  program fixes its status.
\<close>

record env =
  utc_now :: datetime
  unauthenticated :: exn
  put_result :: "string + string"
  connect_fails :: "string option"
  schema_fails :: "string option"
  fetch_fails :: "string option"
  execute_fails :: "string option"

subsection \<open>SQL statements\<close>

text \<open>
  \<open>CREATE_TABLE_QUERY\<close>: both tables are created if absent, and the control row is
  inserted unless a row with id 1 exists.
\<close>

definition create_motion_images :: "database \<Rightarrow> database" where
  "create_motion_images d =
     (case motion_images d of
        None \<Rightarrow> d\<lparr>motion_images := Some [], motion_images_id_seq := 0\<rparr>
      | Some _ \<Rightarrow> d)"

definition create_camera_control :: "database \<Rightarrow> database" where
  "create_camera_control d =
     (case camera_control d of
        None \<Rightarrow> d\<lparr>camera_control := Some []\<rparr>
      | Some _ \<Rightarrow> d)"

definition insert_control_row :: "database \<Rightarrow> exn + database" where
  "insert_control_row d =
     (case camera_control d of
        None \<Rightarrow> Inl (Failure ''relation camera_control does not exist'')
      | Some rows \<Rightarrow>
          if 1 \<in> fst ` set rows then Inr d
          else Inr (d\<lparr>camera_control := Some (rows @ [(1, False)])\<rparr>))"

definition CREATE_TABLE_QUERY :: "database \<Rightarrow> exn + database" where
  "CREATE_TABLE_QUERY d = insert_control_row (create_camera_control (create_motion_images d))"

text \<open>\<open>UPDATE camera_control SET trigger_capture = b WHERE id = 1\<close>\<close>

definition update_trigger :: "bool \<Rightarrow> database \<Rightarrow> exn + database" where
  "update_trigger b d =
     (case camera_control d of
        None \<Rightarrow> Inl (Failure ''relation camera_control does not exist'')
      | Some rows \<Rightarrow>
          Inr (d\<lparr>camera_control := Some (map (\<lambda>(i, t). if i = 1 then (i, b) else (i, t)) rows)\<rparr>))"

text \<open>\<open>SELECT trigger_capture FROM camera_control WHERE id = 1\<close>, first row or \<open>None\<close>\<close>

definition select_trigger :: "database \<Rightarrow> exn + bool option" where
  "select_trigger d =
     (case camera_control d of
        None \<Rightarrow> Inl (Failure ''relation camera_control does not exist'')
      | Some rows \<Rightarrow> Inr (map_of rows 1))"

text \<open>\<open>INSERT INTO motion_images (image_url, captured_at) VALUES ($1, $2)\<close>\<close>

definition insert_image :: "string \<Rightarrow> datetime \<Rightarrow> database \<Rightarrow> exn + database" where
  "insert_image url ts d =
     (case motion_images d of
        None \<Rightarrow> Inl (Failure ''relation motion_images does not exist'')
      | Some rows \<Rightarrow>
          Inr (d\<lparr>motion_images :=
                    Some (rows @ [\<lparr>row_id = Suc (motion_images_id_seq d), image_url = url,
                                   captured_at = ts\<rparr>]),
                 motion_images_id_seq := Suc (motion_images_id_seq d)\<rparr>))"

text \<open>
  \<open>SELECT image_url, captured_at FROM motion_images ORDER BY captured_at DESC\<close>. The
  database does not fix the order of rows with equal timestamps; the model takes one.
\<close>

definition order_by_captured_at_desc :: "image_row list \<Rightarrow> image_row list" where
  "order_by_captured_at_desc rows = rev (sort_key (\<lambda>r. dt_key (captured_at r)) rows)"

definition select_images :: "database \<Rightarrow> exn + image_row list" where
  "select_images d =
     (case motion_images d of
        None \<Rightarrow> Inl (Failure ''relation motion_images does not exist'')
      | Some rows \<Rightarrow> Inr (order_by_captured_at_desc rows))"

fun exec_sql :: "statement \<Rightarrow> database \<Rightarrow> exn + database" where
  "exec_sql CreateTables d = CREATE_TABLE_QUERY d"
| "exec_sql (UpdateTrigger b) d = update_trigger b d"
| "exec_sql (InsertImage url ts) d = insert_image url ts d"

subsection \<open>Calls to the collaborators\<close>

definition called :: "event \<Rightarrow> world \<Rightarrow> world" where
  "called ev w = w\<lparr>trace := trace w @ [ev]\<rparr>"

definition print :: "string \<Rightarrow> world \<Rightarrow> world" where
  "print line w = w\<lparr>console := console w @ [line]\<rparr>"

definition asyncpg_connect :: "env \<Rightarrow> world \<Rightarrow> (exn + unit) \<times> world" where
  "asyncpg_connect e w =
     (case connect_fails e of
        Some text \<Rightarrow> (Inl (Failure text), called Connect w)
      | None \<Rightarrow> (Inr (), called Connect (w\<lparr>open_conns := Suc (open_conns w)\<rparr>)))"

definition conn_execute :: "string option \<Rightarrow> statement \<Rightarrow> world \<Rightarrow> (exn + unit) \<times> world" where
  "conn_execute fails stmt w =
     (case fails of
        Some text \<Rightarrow> (Inl (Failure text), called (Execute stmt) w)
      | None \<Rightarrow>
          (case exec_sql stmt (db w) of
             Inl err \<Rightarrow> (Inl err, called (Execute stmt) w)
           | Inr d \<Rightarrow> (Inr (), called (Execute stmt) (w\<lparr>db := d\<rparr>))))"

definition conn_fetchrow :: "string option \<Rightarrow> world \<Rightarrow> (exn + bool option) \<times> world" where
  "conn_fetchrow fails w =
     (case fails of
        Some text \<Rightarrow> (Inl (Failure text), called Fetchrow w)
      | None \<Rightarrow> (select_trigger (db w), called Fetchrow w))"

definition conn_fetch :: "string option \<Rightarrow> world \<Rightarrow> (exn + image_row list) \<times> world" where
  "conn_fetch fails w =
     (case fails of
        Some text \<Rightarrow> (Inl (Failure text), called Fetch w)
      | None \<Rightarrow> (select_images (db w), called Fetch w))"

definition conn_close :: "world \<Rightarrow> world" where
  "conn_close w = called Close (w\<lparr>open_conns := open_conns w - 1\<rparr>)"

text \<open>\<open>put(filename, image_bytes, options={'access': 'public'})['url']\<close>\<close>

definition put :: "env \<Rightarrow> string \<Rightarrow> byte list \<Rightarrow> access \<Rightarrow> world \<Rightarrow> (exn + string) \<times> world" where
  "put e name bytes acc w =
     (case put_result e of
        Inl text \<Rightarrow> (Inl (Failure text), called (Put name bytes acc) w)
      | Inr url \<Rightarrow>
          (Inr url,
           called (Put name bytes acc)
             (w\<lparr>blobs := blobs w @ [\<lparr>pathname = name, data = bytes, blob_access = acc\<rparr>]\<rparr>)))"

section \<open>The program\<close>

subsection \<open>Security setup\<close>

text \<open>
  \<open>APIKeyHeader(name="x-api-key", auto_error=True)\<close> refuses a request whose header is
  missing or empty, with the framework's exception \<open>unauthenticated\<close>; \<open>API_KEY\<close> is
  \<open>os.environ.get("API_SECRET_KEY")\<close>, \<open>None\<close> when unset.
\<close>

definition api_key_header :: "env \<Rightarrow> string option \<Rightarrow> exn + string" where
  "api_key_header e h =
     (case h of
        None \<Rightarrow> Inl (unauthenticated e)
      | Some k \<Rightarrow> if k = [] then Inl (unauthenticated e) else Inr k)"

definition verify_api_key :: "string option \<Rightarrow> string \<Rightarrow> exn + string" where
  "verify_api_key API_KEY k =
     (if Some k \<noteq> API_KEY then Inl (HTTPException 403 ''Could not validate credentials'')
      else Inr k)"

subsection \<open>Database setup\<close>

definition get_db_connection :: "env \<Rightarrow> world \<Rightarrow> (exn + unit) \<times> world" where
  "get_db_connection e w =
     (case asyncpg_connect e w of
        (Inl err, w1) \<Rightarrow>
          (Inl (HTTPException 500 ''Could not connect to the database.''),
           print (''Database connection error: '' @ str_exc err) w1)
      | (Inr _, w1) \<Rightarrow>
          (case conn_execute (schema_fails e) CreateTables w1 of
             (Inl err, w2) \<Rightarrow>
               (Inl (HTTPException 500 ''Could not connect to the database.''),
                print (''Database connection error: '' @ str_exc err) w2)
           | (Inr _, w2) \<Rightarrow> (Inr (), w2)))"

subsection \<open>Endpoints\<close>

definition trigger_capture :: "env \<Rightarrow> world \<Rightarrow> (exn + response) \<times> world" where
  "trigger_capture e w =
     (case get_db_connection e w of
        (Inl err, w1) \<Rightarrow> (Inl err, w1)
      | (Inr _, w1) \<Rightarrow>
          (case conn_execute (execute_fails e) (UpdateTrigger True) w1 of
             (Inl err, w2) \<Rightarrow> (Inl err, w2)
           | (Inr _, w2) \<Rightarrow>
               (Inr (JSONResponse (Message ''Capture triggered successfully.'') 200),
                conn_close w2)))"

text \<open>The part of \<open>check_trigger\<close> that runs on the acquired connection.\<close>

definition check_trigger_conn :: "env \<Rightarrow> world \<Rightarrow> (exn + response) \<times> world" where
  "check_trigger_conn e w1 =
     (case conn_fetchrow (fetch_fails e) w1 of
        (Inl err, w2) \<Rightarrow> (Inl err, w2)
      | (Inr record, w2) \<Rightarrow>
          (let trigger_status = (case record of Some t \<Rightarrow> t | None \<Rightarrow> False) in
           if trigger_status then
             (case conn_execute (execute_fails e) (UpdateTrigger False) w2 of
                (Inl err, w3) \<Rightarrow> (Inl err, w3)
              | (Inr _, w3) \<Rightarrow> (Inr (JSONResponse (Trigger trigger_status) 200), conn_close w3))
           else (Inr (JSONResponse (Trigger trigger_status) 200), conn_close w2)))"

definition check_trigger :: "env \<Rightarrow> world \<Rightarrow> (exn + response) \<times> world" where
  "check_trigger e w =
     (case get_db_connection e w of
        (Inl err, w1) \<Rightarrow> (Inl err, w1)
      | (Inr _, w1) \<Rightarrow> check_trigger_conn e w1)"

text \<open>The body of the \<open>try\<close> of \<open>upload_image\<close>.\<close>

definition upload_image_try :: "env \<Rightarrow> byte list \<Rightarrow> world \<Rightarrow> (exn + response) \<times> world" where
  "upload_image_try e image_bytes w =
     (if image_bytes = [] then (Inl (HTTPException 400 ''No image data received.''), w)
      else
        let filename = ''motion-capture-'' @ strftime (utc_now e) @ ''.jpg'' in
        (case put e filename image_bytes Public w of
           (Inl err, w1) \<Rightarrow> (Inl err, w1)
         | (Inr url, w1) \<Rightarrow>
             (case get_db_connection e w1 of
                (Inl err, w2) \<Rightarrow> (Inl err, w2)
              | (Inr _, w2) \<Rightarrow>
                  (case conn_execute (execute_fails e) (InsertImage url (utc_now e)) w2 of
                     (Inl err, w3) \<Rightarrow> (Inl err, w3)
                   | (Inr _, w3) \<Rightarrow>
                       (Inr (JSONResponse (Uploaded ''Image uploaded successfully'' url) 201),
                        conn_close w3)))))"

definition upload_image :: "env \<Rightarrow> byte list \<Rightarrow> world \<Rightarrow> (exn + response) \<times> world" where
  "upload_image e image_bytes w =
     (case upload_image_try e image_bytes w of
        (Inl err, w1) \<Rightarrow>
          (Inr (JSONResponse (Error (str_exc err)) 500),
           print (''An error occurred during upload: '' @ str_exc err) w1)
      | (Inr r, w1) \<Rightarrow> (Inr r, w1))"

definition get_images_try :: "env \<Rightarrow> world \<Rightarrow> (exn + response) \<times> world" where
  "get_images_try e w =
     (case get_db_connection e w of
        (Inl err, w1) \<Rightarrow> (Inl err, w1)
      | (Inr _, w1) \<Rightarrow>
          (case conn_fetch (fetch_fails e) w1 of
             (Inl err, w2) \<Rightarrow> (Inl err, w2)
           | (Inr records, w2) \<Rightarrow>
               (Inr (JSONResponse
                       (Images (map (\<lambda>r. (image_url r, isoformat (captured_at r))) records)) 200),
                conn_close w2)))"

definition get_images :: "env \<Rightarrow> world \<Rightarrow> (exn + response) \<times> world" where
  "get_images e w =
     (case get_images_try e w of
        (Inl err, w1) \<Rightarrow>
          (Inr (JSONResponse (Error (str_exc err)) 500),
           print (''An error occurred while fetching images: '' @ str_exc err) w1)
      | (Inr r, w1) \<Rightarrow> (Inr r, w1))"

subsection \<open>Routing\<close>

datatype endpoint = TriggerCapture | CheckTrigger | Upload | ListImages

record request =
  route :: endpoint
  x_api_key :: "string option"
  payload :: "byte list"

text \<open>
  What the framework answers for an exception that leaves a handler or a dependency: an
  \<open>HTTPException\<close> becomes its status with its detail, anything else a plain 500.
\<close>

fun exception_response :: "exn \<Rightarrow> response" where
  "exception_response (HTTPException code detail) = JSONResponse (Detail detail) code"
| "exception_response (Failure text) = JSONResponse (PlainText ''Internal Server Error'') 500"

fun endpoint_handler :: "endpoint \<Rightarrow> env \<Rightarrow> byte list \<Rightarrow> world \<Rightarrow> (exn + response) \<times> world" where
  "endpoint_handler TriggerCapture e image_bytes w = trigger_capture e w"
| "endpoint_handler CheckTrigger e image_bytes w = check_trigger e w"
| "endpoint_handler Upload e image_bytes w = upload_image e image_bytes w"
| "endpoint_handler ListImages e image_bytes w = get_images e w"

text \<open>One request: the dependency \<open>verify_api_key\<close> runs first, then the handler.\<close>

definition serve :: "string option \<Rightarrow> env \<Rightarrow> request \<Rightarrow> world \<Rightarrow> response \<times> world" where
  "serve API_KEY e req w =
     (case api_key_header e (x_api_key req) of
        Inl err \<Rightarrow> (exception_response err, w)
      | Inr k \<Rightarrow>
          (case verify_api_key API_KEY k of
             Inl err \<Rightarrow> (exception_response err, w)
           | Inr _ \<Rightarrow>
               (case endpoint_handler (route req) e (payload req) w of
                  (Inl err, w1) \<Rightarrow> (exception_response err, w1)
                | (Inr r, w1) \<Rightarrow> (r, w1))))"

section \<open>Observations and example states\<close>

text \<open>What the tables hold: the stored flag of row 1, the image rows, the control ids.\<close>

definition trigger_flag :: "database \<Rightarrow> bool option" where
  "trigger_flag d = (case camera_control d of None \<Rightarrow> None | Some rows \<Rightarrow> map_of rows 1)"

definition image_rows :: "database \<Rightarrow> image_row list" where
  "image_rows d = (case motion_images d of None \<Rightarrow> [] | Some rows \<Rightarrow> rows)"

definition control_ids :: "database \<Rightarrow> int list option" where
  "control_ids d = map_option (map fst) (camera_control d)"

text \<open>The ids after the conflict-tolerant insert of row 1 into a table created if absent.\<close>

definition seeded_ids :: "int list option \<Rightarrow> int list" where
  "seeded_ids ids =
     (case ids of None \<Rightarrow> [1] | Some xs \<Rightarrow> if 1 \<in> set xs then xs else xs @ [1])"

definition no_db_failure :: "env \<Rightarrow> bool" where
  "no_db_failure e \<longleftrightarrow>
     connect_fails e = None \<and> schema_fails e = None \<and> fetch_fails e = None \<and>
     execute_fails e = None"

text \<open>A system that has served no request yet: no table exists, nothing is stored.\<close>

definition empty_database :: database where
  "empty_database = \<lparr>motion_images = None, motion_images_id_seq = 0, camera_control = None\<rparr>"

definition initial_world :: world where
  "initial_world = \<lparr>db = empty_database, blobs = [], open_conns = 0, trace = [], console = []\<rparr>"

definition ok_env :: env where
  "ok_env =
     \<lparr>utc_now = \<lparr>year = 2024, month = 5, day = 17, hour = 8, minute = 30, second = 9,
                  microsecond = 123456\<rparr>,
      unauthenticated = HTTPException 401 ''Not authenticated'',
      put_result = Inr ''https://blob.example/motion-capture.jpg'',
      connect_fails = None, schema_fails = None, fetch_fails = None, execute_fails = None\<rparr>"

definition update_fails_env :: env where
  "update_fails_env = ok_env\<lparr>execute_fails := Some ''deadlock detected''\<rparr>"

definition armed_world :: world where
  "armed_world =
     \<lparr>db = \<lparr>motion_images = Some [], motion_images_id_seq = 0,
             camera_control = Some [(1, True)]\<rparr>,
      blobs = [], open_conns = 0, trace = [], console = []\<rparr>"

text \<open>A connection is open and the tables exist, but the control row is gone.\<close>

definition rowless_world :: world where
  "rowless_world =
     \<lparr>db = \<lparr>motion_images = Some [], motion_images_id_seq = 0, camera_control = Some []\<rparr>,
      blobs = [], open_conns = 1, trace = [Connect, Execute CreateTables], console = []\<rparr>"

definition capture_request :: request where
  "capture_request = \<lparr>route = TriggerCapture, x_api_key = Some ''secret'', payload = []\<rparr>"


definition upload_request :: request where
  "upload_request = \<lparr>route = Upload, x_api_key = Some ''secret'', payload = [255, 216, 255]\<rparr>"

definition list_request :: request where
  "list_request = \<lparr>route = ListImages, x_api_key = Some ''secret'', payload = []\<rparr>"

definition connect_fails_env :: env where
  "connect_fails_env = ok_env\<lparr>connect_fails := Some ''connection refused''\<rparr>"

definition put_fails_env :: env where
  "put_fails_env = ok_env\<lparr>put_result := Inl ''blob store unavailable''\<rparr>"

definition fetch_fails_env :: env where
  "fetch_fails_env = ok_env\<lparr>fetch_fails := Some ''statement timeout''\<rparr>"

definition schema_fails_env :: env where
  "schema_fails_env = ok_env\<lparr>schema_fails := Some ''permission denied''\<rparr>"


subsection \<open>Conditions on a request\<close>

text \<open>The request carries a key that passes both the framework's header check and
  \<open>verify_api_key\<close>.\<close>

definition authenticated :: "string option \<Rightarrow> request \<Rightarrow> bool" where
  "authenticated API_KEY req \<longleftrightarrow>
     (case x_api_key req of None \<Rightarrow> False | Some k \<Rightarrow> k \<noteq> [] \<and> API_KEY = Some k)"

text \<open>
  A statement issued on the acquired connection fails: the connect succeeds, and then the
  schema statement fails or a statement that the handler of this route goes on to issue
  fails. The poll issues its \<open>UPDATE\<close> only when the flag it reads is true, the upload
  reaches the database only with a non-empty payload and a blob that was written, the
  listing issues no \<open>execute\<close> of its own and the manual trigger no query.
\<close>

definition statement_fails :: "request \<Rightarrow> env \<Rightarrow> world \<Rightarrow> bool" where
  "statement_fails req e w \<longleftrightarrow>
     connect_fails e = None \<and>
     (case route req of
        TriggerCapture \<Rightarrow> schema_fails e \<noteq> None \<or> execute_fails e \<noteq> None
      | CheckTrigger \<Rightarrow>
          schema_fails e \<noteq> None \<or> fetch_fails e \<noteq> None \<or>
          (trigger_flag (db w) = Some True \<and> execute_fails e \<noteq> None)
      | Upload \<Rightarrow>
          payload req \<noteq> [] \<and> \<not> isl (put_result e) \<and>
          (schema_fails e \<noteq> None \<or> execute_fails e \<noteq> None)
      | ListImages \<Rightarrow> schema_fails e \<noteq> None \<or> fetch_fails e \<noteq> None)"

subsection \<open>Reading a capture file name\<close>

text \<open>
  The layout \<open>motion-capture-YYYYMMDD_HHMMSS_ffffff.jpg\<close>, read back: the prefix, four,
  two and two digits, an underscore, three times two digits, an underscore, six digits and
  the suffix. The result is the timestamp the digits spell.
\<close>

definition is_digit :: "char \<Rightarrow> bool" where
  "is_digit c \<longleftrightarrow> c \<in> set ''0123456789''"

definition digit_val :: "char \<Rightarrow> nat" where
  "digit_val c = of_char c - 48"

definition read_dec :: "string \<Rightarrow> nat" where
  "read_dec s = foldl (\<lambda>a c. 10 * a + digit_val c) 0 s"

definition split_at :: "nat \<Rightarrow> string \<Rightarrow> string \<times> string" where
  "split_at n s = (take n s, drop n s)"

definition parse_capture_name :: "string \<Rightarrow> datetime option" where
  "parse_capture_name s =
     (let (pre, r0) = split_at 15 s;
          (Y, r1) = split_at 4 r0;
          (m, r2) = split_at 2 r1;
          (d, r3) = split_at 2 r2;
          (u1, r4) = split_at 1 r3;
          (H, r5) = split_at 2 r4;
          (M, r6) = split_at 2 r5;
          (S, r7) = split_at 2 r6;
          (u2, r8) = split_at 1 r7;
          (f, suffix) = split_at 6 r8
      in if pre = ''motion-capture-'' \<and> u1 = ''_'' \<and> u2 = ''_'' \<and> suffix = ''.jpg'' \<and>
            length Y = 4 \<and> length m = 2 \<and> length d = 2 \<and> length H = 2 \<and> length M = 2 \<and>
            length S = 2 \<and> length f = 6 \<and> list_all is_digit (Y @ m @ d @ H @ M @ S @ f)
         then Some \<lparr>year = read_dec Y, month = read_dec m, day = read_dec d,
                     hour = read_dec H, minute = read_dec M, second = read_dec S,
                     microsecond = read_dec f\<rparr>
         else None)"

subsection \<open>Sequences of requests\<close>

text \<open>Uploads served one after the other, each with its own environment and payload.\<close>

fun upload_all :: "(env \<times> byte list) list \<Rightarrow> world \<Rightarrow> world" where
  "upload_all [] w = w"
| "upload_all (u # us) w = upload_all us (snd (upload_image (fst u) (snd u) w))"

definition upload_succeeds :: "env \<times> byte list \<Rightarrow> bool" where
  "upload_succeeds u \<longleftrightarrow> no_db_failure (fst u) \<and> isl (put_result (fst u)) = False \<and> snd u \<noteq> []"

definition two_images_world :: world where
  "two_images_world =
     \<lparr>db = \<lparr>motion_images =
               Some [\<lparr>row_id = 1, image_url = ''https://blob.example/a.jpg'',
                       captured_at = \<lparr>year = 2024, month = 5, day = 17, hour = 8, minute = 30,
                                       second = 9, microsecond = 0\<rparr>\<rparr>,
                     \<lparr>row_id = 2, image_url = ''https://blob.example/b.jpg'',
                       captured_at = \<lparr>year = 2024, month = 5, day = 17, hour = 8, minute = 30,
                                       second = 9, microsecond = 123456\<rparr>\<rparr>],
             motion_images_id_seq = 2, camera_control = Some [(1, False)]\<rparr>,
      blobs = [], open_conns = 0, trace = [], console = []\<rparr>"



section \<open>Schema initialisation and the statements\<close>

lemma dec_400: "dec 400 = ''400''"
  by (simp add: dec.simps digit_char_def)

lemma dec_500: "dec 500 = ''500''"
  by (simp add: dec.simps digit_char_def)

lemma map_of_update:
  "map_of (map (\<lambda>(i, t). if i = (1::int) then (i, b) else (i, t)) rows) 1 =
     (if map_of rows 1 = None then None else Some b)"
  by (induction rows) auto

lemma map_fst_update:
  "map fst (map (\<lambda>(i, t). if i = (1::int) then (i, b) else (i, t)) rows) = map fst rows"
  by (induction rows) auto

lemma seeded_flag:
  "map_of (if 1 \<in> fst ` set rows then rows else rows @ [(1, False)]) (1::int) =
     Some (map_of rows 1 = Some True)"
proof (cases "map_of rows 1")
  case None
  then have "1 \<notin> fst ` set rows" by (simp add: map_of_eq_None_iff)
  with None show ?thesis by (simp add: map_add_def)
next
  case (Some b)
  then have "1 \<in> fst ` set rows" by (metis map_of_eq_None_iff option.distinct(1))
  with Some show ?thesis by simp
qed

lemma create_tables_shape:
  "CREATE_TABLE_QUERY d =
     Inr ((create_motion_images d)
            \<lparr>camera_control :=
               Some (if 1 \<in> fst ` set (case camera_control d of None \<Rightarrow> [] | Some r \<Rightarrow> r)
                     then (case camera_control d of None \<Rightarrow> [] | Some r \<Rightarrow> r)
                     else (case camera_control d of None \<Rightarrow> [] | Some r \<Rightarrow> r) @ [(1, False)])\<rparr>)"
  by (cases "camera_control d"; cases "motion_images d")
     (simp_all add: CREATE_TABLE_QUERY_def insert_control_row_def create_camera_control_def
        create_motion_images_def)

lemma CREATE_TABLE_QUERY_flag:
  "CREATE_TABLE_QUERY d = Inr d' \<Longrightarrow> trigger_flag d' = Some (trigger_flag d = Some True)"
  unfolding create_tables_shape
  using seeded_flag [of "case camera_control d of None \<Rightarrow> [] | Some r \<Rightarrow> r"]
  by (cases "camera_control d") (auto simp add: trigger_flag_def simp del: map_of_append)

lemma CREATE_TABLE_QUERY_images:
  "CREATE_TABLE_QUERY d = Inr d' \<Longrightarrow> motion_images d' = Some (image_rows d)"
  unfolding create_tables_shape
  by (cases "motion_images d") (auto simp add: image_rows_def create_motion_images_def)


lemma CREATE_TABLE_QUERY_total: "\<exists>d'. CREATE_TABLE_QUERY d = Inr d'"
  by (simp add: create_tables_shape)


lemma CREATE_TABLE_QUERY_tables:
  "CREATE_TABLE_QUERY d = Inr d' \<Longrightarrow> camera_control d' \<noteq> None \<and> motion_images d' \<noteq> None"
  unfolding create_tables_shape
  by (cases "motion_images d") (auto simp add: create_motion_images_def)

lemma get_db_connection_ok:
  assumes "connect_fails e = None" and "schema_fails e = None"
  shows "\<exists>d'. CREATE_TABLE_QUERY (db w) = Inr d' \<and>
           get_db_connection e w =
             (Inr (), w\<lparr>db := d', open_conns := Suc (open_conns w),
                         trace := trace w @ [Connect, Execute CreateTables]\<rparr>)"
proof -
  obtain d' where d': "CREATE_TABLE_QUERY (db w) = Inr d'"
    using CREATE_TABLE_QUERY_total by blast
  with assms show ?thesis
    by (simp add: get_db_connection_def asyncpg_connect_def conn_execute_def called_def)
qed

lemma get_db_connection_connect_fails:
  assumes "connect_fails e = Some t"
  shows "get_db_connection e w =
           (Inl (HTTPException 500 ''Could not connect to the database.''),
            w\<lparr>trace := trace w @ [Connect],
               console := console w @ [''Database connection error: '' @ t]\<rparr>)"
  using assms by (simp add: get_db_connection_def asyncpg_connect_def called_def print_def)

lemma get_db_connection_schema_fails:
  assumes "connect_fails e = None" and "schema_fails e = Some t"
  shows "get_db_connection e w =
           (Inl (HTTPException 500 ''Could not connect to the database.''),
            w\<lparr>open_conns := Suc (open_conns w), trace := trace w @ [Connect, Execute CreateTables],
               console := console w @ [''Database connection error: '' @ t]\<rparr>)"
  using assms
  by (simp add: get_db_connection_def asyncpg_connect_def conn_execute_def called_def print_def)

lemma update_trigger_ok:
  "camera_control d \<noteq> None \<Longrightarrow> \<exists>d'. update_trigger b d = Inr d'"
  by (auto simp add: update_trigger_def)

lemma update_trigger_props:
  assumes "update_trigger b d = Inr d'"
  shows "trigger_flag d' = (if trigger_flag d = None then None else Some b)"
    and "motion_images d' = motion_images d"
    and "control_ids d' = control_ids d"
  using assms
  by (auto simp add: update_trigger_def trigger_flag_def control_ids_def map_of_update
      map_fst_update split: option.splits)

lemma trigger_capture_ok:
  assumes "no_db_failure e"
  shows "\<exists>d'. trigger_capture e w =
           (Inr (JSONResponse (Message ''Capture triggered successfully.'') 200),
            w\<lparr>db := d',
               trace := trace w @ [Connect, Execute CreateTables, Execute (UpdateTrigger True), Close]\<rparr>)
         \<and> trigger_flag d' = Some True \<and> motion_images d' = Some (image_rows (db w))"
proof -
  from assms have nf: "connect_fails e = None" "schema_fails e = None" "execute_fails e = None"
    by (simp_all add: no_db_failure_def)
  obtain d1 where d1: "CREATE_TABLE_QUERY (db w) = Inr d1"
    and g: "get_db_connection e w =
             (Inr (), w\<lparr>db := d1, open_conns := Suc (open_conns w),
                         trace := trace w @ [Connect, Execute CreateTables]\<rparr>)"
    using get_db_connection_ok [OF nf(1,2)] by blast
  obtain d2 where d2: "update_trigger True d1 = Inr d2"
    using update_trigger_ok CREATE_TABLE_QUERY_tables [OF d1] by blast
  have "trigger_flag d2 = Some True"
    using update_trigger_props(1) [OF d2] CREATE_TABLE_QUERY_flag [OF d1] by simp
  moreover have "motion_images d2 = Some (image_rows (db w))"
    using update_trigger_props(2) [OF d2] CREATE_TABLE_QUERY_images [OF d1] by simp
  moreover have "trigger_capture e w =
           (Inr (JSONResponse (Message ''Capture triggered successfully.'') 200),
            w\<lparr>db := d2,
               trace := trace w @ [Connect, Execute CreateTables, Execute (UpdateTrigger True), Close]\<rparr>)"
    using g d2 nf by (simp add: trigger_capture_def conn_execute_def conn_close_def called_def)
  ultimately show ?thesis by blast
qed

lemma check_trigger_ok:
  assumes "no_db_failure e"
  shows "\<exists>d'. check_trigger e w =
           (Inr (JSONResponse (Trigger (trigger_flag (db w) = Some True)) 200),
            w\<lparr>db := d',
               trace := trace w @ [Connect, Execute CreateTables, Fetchrow] @
                  (if trigger_flag (db w) = Some True then [Execute (UpdateTrigger False)] else []) @
                  [Close]\<rparr>)
         \<and> trigger_flag d' = Some False \<and> motion_images d' = Some (image_rows (db w))"
proof -
  from assms have nf: "connect_fails e = None" "schema_fails e = None" "execute_fails e = None"
      "fetch_fails e = None"
    by (simp_all add: no_db_failure_def)
  obtain d1 where d1: "CREATE_TABLE_QUERY (db w) = Inr d1"
    and g: "get_db_connection e w =
             (Inr (), w\<lparr>db := d1, open_conns := Suc (open_conns w),
                         trace := trace w @ [Connect, Execute CreateTables]\<rparr>)"
    using get_db_connection_ok [OF nf(1,2)] by blast
  have f1: "trigger_flag d1 = Some (trigger_flag (db w) = Some True)"
    using CREATE_TABLE_QUERY_flag [OF d1] .
  have sel: "select_trigger d1 = Inr (Some (trigger_flag (db w) = Some True))"
    using f1 CREATE_TABLE_QUERY_tables [OF d1]
    by (auto simp add: select_trigger_def trigger_flag_def)
  have im: "motion_images d1 = Some (image_rows (db w))"
    using CREATE_TABLE_QUERY_images [OF d1] .
  show ?thesis
  proof (cases "trigger_flag (db w) = Some True")
    case True
    obtain d2 where d2: "update_trigger False d1 = Inr d2"
      using update_trigger_ok CREATE_TABLE_QUERY_tables [OF d1] by blast
    have "trigger_flag d2 = Some False"
      using update_trigger_props(1) [OF d2] f1 by simp
    moreover have "motion_images d2 = Some (image_rows (db w))"
      using update_trigger_props(2) [OF d2] im by simp
    moreover have "check_trigger e w =
           (Inr (JSONResponse (Trigger True) 200),
            w\<lparr>db := d2,
               trace := trace w @ [Connect, Execute CreateTables, Fetchrow,
                  Execute (UpdateTrigger False), Close]\<rparr>)"
      using g d2 nf sel True
      by (simp add: check_trigger_def check_trigger_conn_def conn_fetchrow_def conn_execute_def
          conn_close_def called_def)
    ultimately show ?thesis using True by auto
  next
    case False
    have "check_trigger e w =
           (Inr (JSONResponse (Trigger False) 200),
            w\<lparr>db := d1, trace := trace w @ [Connect, Execute CreateTables, Fetchrow, Close]\<rparr>)"
      using g nf sel False
      by (simp add: check_trigger_def check_trigger_conn_def conn_fetchrow_def
          conn_close_def called_def)
    then show ?thesis using False f1 im by auto
  qed
qed


lemma insert_image_ok:
  "motion_images d = Some rows \<Longrightarrow>
   \<exists>d' n. insert_image url ts d = Inr d' \<and>
     motion_images d' = Some (rows @ [\<lparr>row_id = n, image_url = url, captured_at = ts\<rparr>]) \<and>
     camera_control d' = camera_control d"
  by (simp add: insert_image_def)

lemma upload_image_ok:
  assumes "no_db_failure e" and "put_result e = Inr url" and "image_bytes \<noteq> []"
  shows "\<exists>d' n. upload_image e image_bytes w =
           (Inr (JSONResponse (Uploaded ''Image uploaded successfully'' url) 201),
            w\<lparr>db := d',
               blobs := blobs w @
                 [\<lparr>pathname = ''motion-capture-'' @ strftime (utc_now e) @ ''.jpg'',
                   data = image_bytes, blob_access = Public\<rparr>],
               trace := trace w @
                 [Put (''motion-capture-'' @ strftime (utc_now e) @ ''.jpg'') image_bytes Public,
                  Connect, Execute CreateTables, Execute (InsertImage url (utc_now e)), Close]\<rparr>)
         \<and> motion_images d' =
             Some (image_rows (db w) @ [\<lparr>row_id = n, image_url = url, captured_at = utc_now e\<rparr>])
         \<and> trigger_flag d' = Some (trigger_flag (db w) = Some True)"
proof -
  from assms have nf: "connect_fails e = None" "schema_fails e = None" "execute_fails e = None"
    by (simp_all add: no_db_failure_def)
  let ?name = "''motion-capture-'' @ strftime (utc_now e) @ ''.jpg''"
  define w1 where "w1 = w\<lparr>blobs := blobs w @ [\<lparr>pathname = ?name, data = image_bytes, blob_access = Public\<rparr>],
                          trace := trace w @ [Put ?name image_bytes Public]\<rparr>"
  have p: "put e ?name image_bytes Public w = (Inr url, w1)"
    using assms(2) by (simp add: put_def called_def w1_def)
  obtain d1 where d1: "CREATE_TABLE_QUERY (db w1) = Inr d1"
    and g: "get_db_connection e w1 =
             (Inr (), w1\<lparr>db := d1, open_conns := Suc (open_conns w1),
                         trace := trace w1 @ [Connect, Execute CreateTables]\<rparr>)"
    using get_db_connection_ok [OF nf(1,2)] by blast
  have dbw1: "db w1 = db w" by (simp add: w1_def)
  obtain d2 n where d2: "insert_image url (utc_now e) d1 = Inr d2"
    and im: "motion_images d2 =
       Some (image_rows (db w) @ [\<lparr>row_id = n, image_url = url, captured_at = utc_now e\<rparr>])"
    and cc: "camera_control d2 = camera_control d1"
    using insert_image_ok [OF CREATE_TABLE_QUERY_images [OF d1]] dbw1 by metis
  have "trigger_flag d2 = Some (trigger_flag (db w) = Some True)"
    using CREATE_TABLE_QUERY_flag [OF d1] cc dbw1 by (simp add: trigger_flag_def)
  moreover have "upload_image e image_bytes w =
           (Inr (JSONResponse (Uploaded ''Image uploaded successfully'' url) 201),
            w\<lparr>db := d2,
               blobs := blobs w @ [\<lparr>pathname = ?name, data = image_bytes, blob_access = Public\<rparr>],
               trace := trace w @ [Put ?name image_bytes Public,
                  Connect, Execute CreateTables, Execute (InsertImage url (utc_now e)), Close]\<rparr>)"
    using p g d2 nf assms(3)
    by (simp add: upload_image_def upload_image_try_def conn_execute_def
        conn_close_def called_def) (simp add: w1_def)
  ultimately show ?thesis using im by blast
qed

lemma get_images_ok:
  assumes "no_db_failure e"
  shows "\<exists>d'. get_images e w =
           (Inr (JSONResponse
                  (Images (map (\<lambda>r. (image_url r, isoformat (captured_at r)))
                            (order_by_captured_at_desc (image_rows (db w))))) 200),
            w\<lparr>db := d', trace := trace w @ [Connect, Execute CreateTables, Fetch, Close]\<rparr>)
         \<and> motion_images d' = Some (image_rows (db w))
         \<and> trigger_flag d' = Some (trigger_flag (db w) = Some True)"
proof -
  from assms have nf: "connect_fails e = None" "schema_fails e = None" "fetch_fails e = None"
    by (simp_all add: no_db_failure_def)
  obtain d1 where d1: "CREATE_TABLE_QUERY (db w) = Inr d1"
    and g: "get_db_connection e w =
             (Inr (), w\<lparr>db := d1, open_conns := Suc (open_conns w),
                         trace := trace w @ [Connect, Execute CreateTables]\<rparr>)"
    using get_db_connection_ok [OF nf(1,2)] by blast
  have im: "motion_images d1 = Some (image_rows (db w))"
    using CREATE_TABLE_QUERY_images [OF d1] .
  have "get_images e w =
           (Inr (JSONResponse
                  (Images (map (\<lambda>r. (image_url r, isoformat (captured_at r)))
                            (order_by_captured_at_desc (image_rows (db w))))) 200),
            w\<lparr>db := d1, trace := trace w @ [Connect, Execute CreateTables, Fetch, Close]\<rparr>)"
    using g nf im
    by (simp add: get_images_def get_images_try_def conn_fetch_def select_images_def
        conn_close_def called_def)
  then show ?thesis
    using im CREATE_TABLE_QUERY_flag [OF d1] by blast
qed

section \<open>Failing collaborators\<close>

lemma get_db_connection_fails:
  assumes "connect_fails e = Some t \<or> (connect_fails e = None \<and> schema_fails e = Some t)"
  shows "\<exists>w1. get_db_connection e w =
           (Inl (HTTPException 500 ''Could not connect to the database.''), w1)"
  using assms get_db_connection_connect_fails [of e t w] get_db_connection_schema_fails [of e t w]
  by auto

lemma upload_image_put_fails:
  assumes "image_bytes \<noteq> []" and "put_result e = Inl t"
  shows "fst (upload_image e image_bytes w) = Inr (JSONResponse (Error t) 500)"
  using assms by (simp add: upload_image_def upload_image_try_def put_def Let_def)

lemma get_db_connection_no_exn:
  assumes "connect_fails e = None" and "schema_fails e = None"
  shows "get_db_connection e w \<noteq> (Inl err, w')"
  using get_db_connection_ok [OF assms, of w] by auto

lemma conn_execute_fails:
  "conn_execute (Some t) stmt w = (Inl (Failure t), called (Execute stmt) w)"
  by (simp add: conn_execute_def)

lemma upload_image_insert_fails:
  assumes "image_bytes \<noteq> []" and "put_result e = Inr url" and "connect_fails e = None"
    and "schema_fails e = None" and "execute_fails e = Some t"
  shows "fst (upload_image e image_bytes w) = Inr (JSONResponse (Error t) 500)"
  using assms get_db_connection_no_exn [OF assms(3,4)]
  by (simp add: upload_image_def upload_image_try_def Let_def put_def conn_execute_fails
      split: prod.splits sum.splits)

lemma upload_image_connection_fails:
  assumes "image_bytes \<noteq> []" and "put_result e = Inr url"
    and "connect_fails e = Some t \<or> (connect_fails e = None \<and> schema_fails e = Some t)"
  shows "fst (upload_image e image_bytes w) =
           Inr (JSONResponse (Error ''500: Could not connect to the database.'') 500)"
proof -
  obtain w1 where p: "put e (''motion-capture-'' @ strftime (utc_now e) @ ''.jpg'')
      image_bytes Public w = (Inr url, w1)"
    using assms(2) by (simp add: put_def)
  obtain w2 where "get_db_connection e w1 =
           (Inl (HTTPException 500 ''Could not connect to the database.''), w2)"
    using get_db_connection_fails [OF assms(3)] by blast
  with p assms(1) show ?thesis
    by (simp add: upload_image_def upload_image_try_def dec_500)
qed

lemma get_images_fetch_fails:
  assumes "connect_fails e = None" and "schema_fails e = None" and "fetch_fails e = Some t"
  shows "fst (get_images e w) = Inr (JSONResponse (Error t) 500)"
  using assms get_db_connection_no_exn [OF assms(1,2)]
  by (simp add: get_images_def get_images_try_def conn_fetch_def
      split: prod.splits sum.splits)

lemma get_images_connection_fails:
  assumes "connect_fails e = Some t \<or> (connect_fails e = None \<and> schema_fails e = Some t)"
  shows "fst (get_images e w) =
           Inr (JSONResponse (Error ''500: Could not connect to the database.'') 500)"
proof -
  obtain w1 where "get_db_connection e w =
           (Inl (HTTPException 500 ''Could not connect to the database.''), w1)"
    using get_db_connection_fails [OF assms] by blast
  then show ?thesis
    by (simp add: get_images_def get_images_try_def dec_500)
qed

lemma trigger_capture_connection_fails:
  assumes "connect_fails e = Some t \<or> (connect_fails e = None \<and> schema_fails e = Some t)"
  shows "fst (trigger_capture e w) =
           Inl (HTTPException 500 ''Could not connect to the database.'')"
proof -
  obtain w1 where "get_db_connection e w =
           (Inl (HTTPException 500 ''Could not connect to the database.''), w1)"
    using get_db_connection_fails [OF assms] by blast
  then show ?thesis
    by (simp add: trigger_capture_def)
qed

lemma check_trigger_connection_fails:
  assumes "connect_fails e = Some t \<or> (connect_fails e = None \<and> schema_fails e = Some t)"
  shows "fst (check_trigger e w) =
           Inl (HTTPException 500 ''Could not connect to the database.'')"
proof -
  obtain w1 where "get_db_connection e w =
           (Inl (HTTPException 500 ''Could not connect to the database.''), w1)"
    using get_db_connection_fails [OF assms] by blast
  then show ?thesis
    by (simp add: check_trigger_def)
qed

lemma serve_handler:
  assumes "API_KEY = Some k" and "x_api_key req = Some k" and "k \<noteq> []"
  shows "fst (serve API_KEY e req w) =
           (case fst (endpoint_handler (route req) e (payload req) w) of
              Inl err \<Rightarrow> exception_response err | Inr r \<Rightarrow> r)"
  using assms
  by (simp add: serve_def api_key_header_def verify_api_key_def split: prod.splits sum.splits)

section \<open>File names\<close>

lemma digit_cases:
  "d < 10 \<Longrightarrow> d = 0 \<or> d = 1 \<or> d = 2 \<or> d = 3 \<or> d = 4 \<or> d = 5 \<or> d = 6 \<or> d = 7 \<or> d = 8 \<or> d = (9::nat)"
  by arith

lemma digit_char_is_digit: "d < 10 \<Longrightarrow> is_digit (digit_char d)"
  using digit_cases [of d] by (auto simp add: digit_char_def is_digit_def)

lemma digit_val_digit_char: "d < 10 \<Longrightarrow> digit_val (digit_char d) = d"
  using digit_cases [of d] by (auto simp add: digit_char_def digit_val_def)

lemma dec_digits: "list_all is_digit (dec n)"
proof (induction n rule: dec.induct)
  case (1 n)
  show ?case
  proof (cases "n < 10")
    case True
    then show ?thesis by (simp add: dec.simps [of n] digit_char_is_digit)
  next
    case False
    with 1 show ?thesis by (simp add: dec.simps [of n] digit_char_is_digit)
  qed
qed

lemma read_dec_snoc: "read_dec (s @ [c]) = 10 * read_dec s + digit_val c"
  by (simp add: read_dec_def)

lemma read_dec_dec: "read_dec (dec n) = n"
proof (induction n rule: dec.induct)
  case (1 n)
  show ?case
  proof (cases "n < 10")
    case True
    then show ?thesis by (simp add: dec.simps [of n] read_dec_def digit_val_digit_char)
  next
    case False
    with 1 have "read_dec (dec (n div 10)) = n div 10" by simp
    with False show ?thesis
      by (simp add: dec.simps [of n] read_dec_snoc digit_val_digit_char)
  qed
qed

lemma length_dec: "n < 10 ^ Suc w \<Longrightarrow> length (dec n) \<le> Suc w"
proof (induction w arbitrary: n)
  case 0
  then show ?case by (simp add: dec.simps [of n])
next
  case (Suc w)
  show ?case
  proof (cases "n < 10")
    case True
    then show ?thesis by (simp add: dec.simps [of n])
  next
    case False
    from Suc.prems have "n div 10 < 10 ^ Suc w" by (simp add: less_mult_imp_div_less)
    from Suc.IH [OF this] False show ?thesis by (simp add: dec.simps [of n])
  qed
qed

lemma length_zfill: "n < 10 ^ w \<Longrightarrow> 0 < w \<Longrightarrow> length (zfill w (dec n)) = w"
  using length_dec [of n "w - 1"] by (simp add: zfill_def)

lemma zero_is_digit: "is_digit (CHR ''0'')"
  by (simp add: is_digit_def)

lemma zfill_digits: "list_all is_digit (zfill w (dec n))"
  using dec_digits [of n] by (auto simp add: zfill_def list_all_iff zero_is_digit)

lemma read_dec_zeros: "foldl (\<lambda>a c. 10 * a + digit_val c) 0 (replicate k (CHR ''0'')) = 0"
  by (induction k) (simp_all add: digit_val_def)

lemma read_dec_zfill: "read_dec (zfill w (dec n)) = n"
  using read_dec_dec [of n] by (simp add: zfill_def read_dec_def read_dec_zeros)

lemma split_at_append: "length a = n \<Longrightarrow> split_at n (a @ b) = (a, b)"
  by (simp add: split_at_def)

lemma parse_capture_name_strftime:
  assumes "valid_datetime t"
  shows "parse_capture_name (''motion-capture-'' @ strftime t @ ''.jpg'') = Some t"
proof -
  from assms have r: "year t < 10 ^ 4" "month t < 10 ^ 2" "day t < 10 ^ 2"
    "hour t < 10 ^ 2" "minute t < 10 ^ 2" "second t < 10 ^ 2"
    "microsecond t < 10 ^ 6"
    by (simp_all add: valid_datetime_def)
  have l: "length (zfill 4 (dec (year t))) = 4" "length (zfill 2 (dec (month t))) = 2"
    "length (zfill 2 (dec (day t))) = 2" "length (zfill 2 (dec (hour t))) = 2"
    "length (zfill 2 (dec (minute t))) = 2" "length (zfill 2 (dec (second t))) = 2"
    "length (zfill 6 (dec (microsecond t))) = 6"
    using r by (simp_all add: length_zfill)
  have p: "split_at 15 (''motion-capture-'' @ x) = (''motion-capture-'', x)" for x
    by (simp add: split_at_def)
  have u: "split_at 1 (''_'' @ x) = (''_'', x)" for x
    by (simp add: split_at_def)
  show ?thesis
    unfolding parse_capture_name_def strftime_def
    by (simp only: p u append_assoc split_at_append l Let_def prod.case)
       (simp add: l zfill_digits read_dec_zfill)
qed

section \<open>Listing\<close>

lemma order_by_captured_at_desc_mset: "mset (order_by_captured_at_desc rows) = mset rows"
  by (simp add: order_by_captured_at_desc_def)

lemma order_by_captured_at_desc_sorted:
  "sorted_wrt (\<lambda>a b. dt_key (captured_at b) \<le> dt_key (captured_at a))
     (order_by_captured_at_desc rows)"
proof -
  have "sorted (map (\<lambda>r. dt_key (captured_at r)) (sort_key (\<lambda>r. dt_key (captured_at r)) rows))"
    by (rule sorted_sort_key)
  then show ?thesis
    by (simp add: order_by_captured_at_desc_def sorted_wrt_rev sorted_wrt_map)
qed

lemma upload_all_rows:
  "list_all upload_succeeds us \<Longrightarrow>
     length (image_rows (db (upload_all us w))) = length (image_rows (db w)) + length us"
proof (induction us arbitrary: w)
  case Nil
  then show ?case by simp
next
  case (Cons u us)
  from Cons.prems have u: "upload_succeeds u" and rest: "list_all upload_succeeds us"
    by simp_all
  from u have ok: "no_db_failure (fst u)" "snd u \<noteq> []"
    by (simp_all add: upload_succeeds_def)
  from u obtain url where url: "put_result (fst u) = Inr url"
    by (cases "put_result (fst u)") (simp_all add: upload_succeeds_def)
  from upload_image_ok [OF ok(1) url ok(2), of w]
  have "length (image_rows (db (snd (upload_image (fst u) (snd u) w)))) =
      Suc (length (image_rows (db w)))"
    by (auto simp add: image_rows_def)
  with Cons.IH [OF rest, of "snd (upload_image (fst u) (snd u) w)"] show ?case
    by simp
qed

section \<open>The control row\<close>

lemma seeded_ids_idem: "seeded_ids (Some (seeded_ids ids)) = seeded_ids ids"
  by (auto simp add: seeded_ids_def split: option.splits)



lemma db_called [simp]: "db (called ev w) = db w"
  by (simp add: called_def)

lemma db_print [simp]: "db (print l w) = db w"
  by (simp add: print_def)

lemma db_conn_close [simp]: "db (conn_close w) = db w"
  by (simp add: conn_close_def)






















section \<open>Connections\<close>

lemma open_conns_called [simp]: "open_conns (called ev w) = open_conns w"
  by (simp add: called_def)

lemma open_conns_print [simp]: "open_conns (print l w) = open_conns w"
  by (simp add: print_def)

lemma get_db_connection_conns:
  "open_conns (snd (get_db_connection e w)) =
     (if connect_fails e = None then Suc (open_conns w) else open_conns w)"
proof (cases "connect_fails e")
  case (Some t)
  then show ?thesis
    by (simp add: get_db_connection_connect_fails)
next
  case None
  show ?thesis
  proof (cases "schema_fails e")
    case (Some t)
    with None show ?thesis
      by (simp add: get_db_connection_schema_fails)
  next
    case n: None
    from get_db_connection_ok [OF None n, of w] None show ?thesis
      by auto
  qed
qed

lemma trigger_capture_leak:
  "open_conns (snd (trigger_capture e w)) =
     (if connect_fails e = None \<and> (schema_fails e \<noteq> None \<or> execute_fails e \<noteq> None)
      then Suc (open_conns w) else open_conns w)"
proof (cases "connect_fails e")
  case (Some t)
  then show ?thesis
    by (simp add: trigger_capture_def get_db_connection_connect_fails)
next
  case None
  show ?thesis
  proof (cases "schema_fails e")
    case (Some t)
    with None show ?thesis
      by (simp add: trigger_capture_def get_db_connection_schema_fails)
  next
    case n: None
    obtain d1 where d1: "CREATE_TABLE_QUERY (db w) = Inr d1"
      and g: "get_db_connection e w =
             (Inr (), w\<lparr>db := d1, open_conns := Suc (open_conns w),
                         trace := trace w @ [Connect, Execute CreateTables]\<rparr>)"
      using get_db_connection_ok [OF None n] by blast
    obtain d2 where d2: "update_trigger True d1 = Inr d2"
      using update_trigger_ok CREATE_TABLE_QUERY_tables [OF d1] by blast
    show ?thesis
    proof (cases "execute_fails e")
      case (Some t)
      with None n g show ?thesis
        by (simp add: trigger_capture_def conn_execute_fails)
    next
      case x: None
      with None n g d2 show ?thesis
        by (simp add: trigger_capture_def conn_execute_def conn_close_def)
    qed
  qed
qed

lemma check_trigger_leak:
  "open_conns (snd (check_trigger e w)) =
     (if connect_fails e = None \<and>
         (schema_fails e \<noteq> None \<or> fetch_fails e \<noteq> None \<or>
          (trigger_flag (db w) = Some True \<and> execute_fails e \<noteq> None))
      then Suc (open_conns w) else open_conns w)"
proof (cases "connect_fails e")
  case (Some t)
  then show ?thesis
    by (simp add: check_trigger_def get_db_connection_connect_fails)
next
  case None
  show ?thesis
  proof (cases "schema_fails e")
    case (Some t)
    with None show ?thesis
      by (simp add: check_trigger_def get_db_connection_schema_fails)
  next
    case n: None
    obtain d1 where d1: "CREATE_TABLE_QUERY (db w) = Inr d1"
      and g: "get_db_connection e w =
             (Inr (), w\<lparr>db := d1, open_conns := Suc (open_conns w),
                         trace := trace w @ [Connect, Execute CreateTables]\<rparr>)"
      using get_db_connection_ok [OF None n] by blast
    have sel: "select_trigger d1 = Inr (Some (trigger_flag (db w) = Some True))"
      using CREATE_TABLE_QUERY_flag [OF d1] CREATE_TABLE_QUERY_tables [OF d1]
      by (auto simp add: select_trigger_def trigger_flag_def)
    obtain d2 where d2: "update_trigger False d1 = Inr d2"
      using update_trigger_ok CREATE_TABLE_QUERY_tables [OF d1] by blast
    show ?thesis
    proof (cases "fetch_fails e")
      case (Some t)
      with None n g show ?thesis
        by (simp add: check_trigger_def check_trigger_conn_def conn_fetchrow_def)
    next
      case f: None
      show ?thesis
      proof (cases "execute_fails e")
        case (Some t)
        with None n f g sel show ?thesis
          by (simp add: check_trigger_def check_trigger_conn_def conn_fetchrow_def
              conn_execute_fails conn_close_def Let_def)
      next
        case x: None
        with None n f g sel d2 show ?thesis
          by (simp add: check_trigger_def check_trigger_conn_def conn_fetchrow_def
              conn_execute_def conn_close_def Let_def)
      qed
    qed
  qed
qed

lemma get_images_leak:
  "open_conns (snd (get_images e w)) =
     (if connect_fails e = None \<and> (schema_fails e \<noteq> None \<or> fetch_fails e \<noteq> None)
      then Suc (open_conns w) else open_conns w)"
proof (cases "connect_fails e")
  case (Some t)
  then show ?thesis
    by (simp add: get_images_def get_images_try_def get_db_connection_connect_fails)
next
  case None
  show ?thesis
  proof (cases "schema_fails e")
    case (Some t)
    with None show ?thesis
      by (simp add: get_images_def get_images_try_def get_db_connection_schema_fails)
  next
    case n: None
    obtain d1 where d1: "CREATE_TABLE_QUERY (db w) = Inr d1"
      and g: "get_db_connection e w =
             (Inr (), w\<lparr>db := d1, open_conns := Suc (open_conns w),
                         trace := trace w @ [Connect, Execute CreateTables]\<rparr>)"
      using get_db_connection_ok [OF None n] by blast
    have im: "motion_images d1 = Some (image_rows (db w))"
      using CREATE_TABLE_QUERY_images [OF d1] .
    show ?thesis
    proof (cases "fetch_fails e")
      case (Some t)
      with None n g show ?thesis
        by (simp add: get_images_def get_images_try_def conn_fetch_def)
    next
      case f: None
      with None n g im show ?thesis
        by (simp add: get_images_def get_images_try_def conn_fetch_def select_images_def
            conn_close_def)
    qed
  qed
qed

lemma upload_image_leak:
  "open_conns (snd (upload_image e image_bytes w)) =
     (if connect_fails e = None \<and> image_bytes \<noteq> [] \<and> \<not> isl (put_result e) \<and>
         (schema_fails e \<noteq> None \<or> execute_fails e \<noteq> None)
      then Suc (open_conns w) else open_conns w)"
proof (cases "image_bytes = []")
  case True
  then show ?thesis
    by (simp add: upload_image_def upload_image_try_def)
next
  case nonempty: False
  show ?thesis
  proof (cases "put_result e")
    case (Inl t)
    with nonempty show ?thesis
      by (simp add: upload_image_def upload_image_try_def put_def Let_def)
  next
    case (Inr url)
    obtain w1 where p: "put e (''motion-capture-'' @ strftime (utc_now e) @ ''.jpg'')
        image_bytes Public w = (Inr url, w1)" and c1: "open_conns w1 = open_conns w"
      and db1: "db w1 = db w"
      using Inr by (simp add: put_def)
    show ?thesis
    proof (cases "connect_fails e")
      case (Some t)
      with nonempty Inr p c1 show ?thesis
        by (simp add: upload_image_def upload_image_try_def get_db_connection_connect_fails)
    next
      case None
      show ?thesis
      proof (cases "schema_fails e")
        case (Some t)
        with None nonempty Inr p c1 show ?thesis
          by (simp add: upload_image_def upload_image_try_def get_db_connection_schema_fails)
      next
        case n: None
        obtain d1 where d1: "CREATE_TABLE_QUERY (db w1) = Inr d1"
          and g: "get_db_connection e w1 =
             (Inr (), w1\<lparr>db := d1, open_conns := Suc (open_conns w1),
                         trace := trace w1 @ [Connect, Execute CreateTables]\<rparr>)"
          using get_db_connection_ok [OF None n] by blast
        obtain d2 where d2: "insert_image url (utc_now e) d1 = Inr d2"
          using insert_image_ok [OF CREATE_TABLE_QUERY_images [OF d1]] by blast
        show ?thesis
        proof (cases "execute_fails e")
          case (Some t)
          with None n nonempty Inr p c1 g show ?thesis
            by (simp add: upload_image_def upload_image_try_def conn_execute_fails)
        next
          case x: None
          with None n nonempty Inr p c1 g d2 show ?thesis
            by (simp add: upload_image_def upload_image_try_def conn_execute_def conn_close_def)
        qed
      qed
    qed
  qed
qed

lemma serve_world:
  "snd (serve API_KEY e req w) =
     (if authenticated API_KEY req then snd (endpoint_handler (route req) e (payload req) w)
      else w)"
  by (auto simp add: serve_def api_key_header_def verify_api_key_def authenticated_def
      split: option.splits prod.splits sum.splits)

section \<open>The claims\<close>

text \<open>
  C1. The claim: an upload with an empty payload fails with status 400 and writes neither
  an image record nor a blob. The handler raises the 400 inside its own \<open>try\<close>, whose
  \<open>except Exception\<close> catches it: the answer is status 500 with the text of the 400 in
  the body. Nothing is stored and no collaborator is called; only a line is printed.
\<close>

theorem upload_empty_payload_answers_500:
  "upload_image e [] w =
     (Inr \<lparr>status_code = 500, content = Error ''400: No image data received.''\<rparr>,
      w\<lparr>console := console w @
           [''An error occurred during upload: 400: No image data received.'']\<rparr>)"
  by (simp add: upload_image_def upload_image_try_def dec_400 JSONResponse_def print_def)

text \<open>
  C2, as amended. For every request and every exit path, the connection acquired for the
  request is released before the operation returns exactly when no statement issued on it
  fails: after a request as many connections are open as before it (a refused key, an
  empty upload, a failing blob write and a failing connect hold no connection), unless the
  schema statement or a statement that the handler issues on the connection fails; then the
  handler returns without closing it, and one more connection is open than before.
\<close>

theorem connection_released_iff_no_statement_fails:
  "open_conns (snd (serve API_KEY e req w)) =
     (if authenticated API_KEY req \<and> statement_fails req e w then Suc (open_conns w)
      else open_conns w)"
  by (cases "route req")
     (simp_all add: serve_world statement_fails_def trigger_capture_leak check_trigger_leak
        upload_image_leak get_images_leak)

theorem connection_released_witness:
  "authenticated (Some ''secret'') capture_request \<and>
   authenticated (Some ''secret'') list_request \<and>
   \<not> statement_fails capture_request ok_env initial_world \<and>
   open_conns (snd (serve (Some ''secret'') ok_env capture_request initial_world)) =
     open_conns initial_world \<and>
   \<not> statement_fails list_request update_fails_env initial_world \<and>
   open_conns (snd (serve (Some ''secret'') update_fails_env list_request initial_world)) =
     open_conns initial_world \<and>
   statement_fails capture_request schema_fails_env initial_world \<and>
   open_conns (snd (serve (Some ''secret'') schema_fails_env capture_request initial_world)) =
     Suc (open_conns initial_world) \<and>
   statement_fails list_request fetch_fails_env initial_world \<and>
   open_conns (snd (serve (Some ''secret'') fetch_fails_env list_request initial_world)) =
     Suc (open_conns initial_world)"
proof -
  have a: "authenticated (Some ''secret'') capture_request"
    "authenticated (Some ''secret'') list_request"
    by (simp_all add: authenticated_def capture_request_def list_request_def)
  have n: "\<not> statement_fails capture_request ok_env initial_world"
    "\<not> statement_fails list_request update_fails_env initial_world"
    by (simp_all add: statement_fails_def capture_request_def list_request_def ok_env_def
        update_fails_env_def)
  have f: "statement_fails capture_request schema_fails_env initial_world"
    "statement_fails list_request fetch_fails_env initial_world"
    by (simp_all add: statement_fails_def capture_request_def list_request_def ok_env_def
        schema_fails_env_def fetch_fails_env_def)
  from a n f
    connection_released_iff_no_statement_fails
      [of "Some ''secret''" ok_env capture_request initial_world]
    connection_released_iff_no_statement_fails
      [of "Some ''secret''" update_fails_env list_request initial_world]
    connection_released_iff_no_statement_fails
      [of "Some ''secret''" schema_fails_env capture_request initial_world]
    connection_released_iff_no_statement_fails
      [of "Some ''secret''" fetch_fails_env list_request initial_world]
  show ?thesis
    by simp
qed

text \<open>
  C2, as stated, fails: when the \<open>UPDATE\<close> of a manual capture request fails, the
  exception leaves the handler before \<open>conn.close()\<close>, and the connection stays open.
\<close>

theorem connection_leak_counterexample:
  "open_conns initial_world = 0 \<and>
   serve (Some ''secret'') update_fails_env capture_request initial_world =
     (\<lparr>status_code = 500, content = PlainText ''Internal Server Error''\<rparr>,
      \<lparr>db = \<lparr>motion_images = Some [], motion_images_id_seq = 0,
              camera_control = Some [(1, False)]\<rparr>,
       blobs = [], open_conns = 1,
       trace = [Connect, Execute CreateTables, Execute (UpdateTrigger True)], console = []\<rparr>)"
  by (simp add: serve_def api_key_header_def verify_api_key_def capture_request_def
      update_fails_env_def ok_env_def initial_world_def empty_database_def trigger_capture_def
      get_db_connection_def asyncpg_connect_def conn_execute_def called_def
      CREATE_TABLE_QUERY_def insert_control_row_def create_camera_control_def
      create_motion_images_def JSONResponse_def)

text \<open>
  C4. Whatever the stored flag is, when no database call fails the poll returns the value
  it read; afterwards the stored flag is false, and the clearing \<open>UPDATE\<close> was issued
  exactly when the value read was true.
\<close>

theorem check_trigger_returns_and_clears:
  assumes "no_db_failure e" and "trigger_flag (db w) = Some b"
  shows "fst (check_trigger e w) = Inr (JSONResponse (Trigger b) 200) \<and>
         trigger_flag (db (snd (check_trigger e w))) = Some False \<and>
         trace (snd (check_trigger e w)) =
           trace w @ [Connect, Execute CreateTables, Fetchrow] @
             (if b then [Execute (UpdateTrigger False)] else []) @ [Close]"
  using check_trigger_ok [OF assms(1), of w] assms(2) by auto

theorem check_trigger_returns_and_clears_witness:
  "no_db_failure ok_env \<and> trigger_flag (db armed_world) = Some True \<and>
   fst (check_trigger ok_env armed_world) = Inr (JSONResponse (Trigger True) 200) \<and>
   trigger_flag (db (snd (check_trigger ok_env armed_world))) = Some False \<and>
   trace (snd (check_trigger ok_env armed_world)) =
     [Connect, Execute CreateTables, Fetchrow, Execute (UpdateTrigger False), Close]"
proof -
  have h: "no_db_failure ok_env"
    by (simp add: no_db_failure_def ok_env_def)
  have f: "trigger_flag (db armed_world) = Some True"
    by (simp add: armed_world_def trigger_flag_def)
  have t: "trace armed_world = []"
    by (simp add: armed_world_def)
  show ?thesis
    using h f t check_trigger_returns_and_clears [OF h f] by simp
qed

text \<open>
  C5. On a system that has served nothing yet, and on any system whose flag is not set, a
  poll returns false. After a manual capture request, from any state, the next poll returns
  true and the poll after it returns false.
\<close>

theorem trigger_then_poll_once:
  assumes "no_db_failure e1" and "no_db_failure e2" and "no_db_failure e3"
  shows "fst (check_trigger e1 initial_world) = Inr (JSONResponse (Trigger False) 200) \<and>
         (trigger_flag (db w0) = None \<or> trigger_flag (db w0) = Some False \<longrightarrow>
            fst (check_trigger e1 w0) = Inr (JSONResponse (Trigger False) 200)) \<and>
         fst (check_trigger e2 (snd (trigger_capture e1 w))) =
           Inr (JSONResponse (Trigger True) 200) \<and>
         fst (check_trigger e3 (snd (check_trigger e2 (snd (trigger_capture e1 w))))) =
           Inr (JSONResponse (Trigger False) 200)"
proof -
  have "trigger_flag (db initial_world) = None"
    by (simp add: initial_world_def empty_database_def trigger_flag_def)
  then have a: "fst (check_trigger e1 initial_world) = Inr (JSONResponse (Trigger False) 200)"
    using check_trigger_ok [OF assms(1), of initial_world] by auto
  have a0: "trigger_flag (db w0) = None \<or> trigger_flag (db w0) = Some False \<longrightarrow>
            fst (check_trigger e1 w0) = Inr (JSONResponse (Trigger False) 200)"
    using check_trigger_ok [OF assms(1), of w0] by auto
  have t: "trigger_flag (db (snd (trigger_capture e1 w))) = Some True"
    using trigger_capture_ok [OF assms(1), of w] by auto
  have b: "fst (check_trigger e2 (snd (trigger_capture e1 w))) =
           Inr (JSONResponse (Trigger True) 200)"
    using check_trigger_ok [OF assms(2), of "snd (trigger_capture e1 w)"] t by auto
  have f: "trigger_flag (db (snd (check_trigger e2 (snd (trigger_capture e1 w))))) = Some False"
    using check_trigger_ok [OF assms(2), of "snd (trigger_capture e1 w)"] by auto
  have c: "fst (check_trigger e3 (snd (check_trigger e2 (snd (trigger_capture e1 w))))) =
           Inr (JSONResponse (Trigger False) 200)"
    using check_trigger_ok [OF assms(3), of "snd (check_trigger e2 (snd (trigger_capture e1 w)))"] f
    by auto
  from a a0 b c show ?thesis
    by simp
qed

theorem trigger_then_poll_once_witness:
  "no_db_failure ok_env \<and> trigger_flag (db initial_world) = None \<and>
   fst (check_trigger ok_env initial_world) = Inr (JSONResponse (Trigger False) 200) \<and>
   fst (check_trigger ok_env (snd (trigger_capture ok_env initial_world))) =
     Inr (JSONResponse (Trigger True) 200) \<and>
   fst (check_trigger ok_env
         (snd (check_trigger ok_env (snd (trigger_capture ok_env initial_world))))) =
     Inr (JSONResponse (Trigger False) 200)"
proof -
  have h: "no_db_failure ok_env"
    by (simp add: no_db_failure_def ok_env_def)
  have n: "trigger_flag (db initial_world) = None"
    by (simp add: initial_world_def empty_database_def trigger_flag_def)
  show ?thesis
    using h n trigger_then_poll_once [OF h h h, of initial_world initial_world] by simp
qed




text \<open>
  C10. When the row query returns no record (the table exists, row 1 does not), the poll
  answers false with status 200: only the query and the close are issued, no \<open>UPDATE\<close>,
  whether or not an \<open>UPDATE\<close> would have failed.
\<close>

theorem check_trigger_row_absent:
  assumes "camera_control (db w) = Some rows" and "map_of rows 1 = None"
    and "fetch_fails e = None"
  shows "check_trigger_conn e w =
           (Inr (JSONResponse (Trigger False) 200),
            w\<lparr>open_conns := open_conns w - 1, trace := trace w @ [Fetchrow, Close]\<rparr>)"
  using assms
  by (simp add: check_trigger_conn_def conn_fetchrow_def select_trigger_def conn_close_def
      called_def)

theorem check_trigger_row_absent_witness:
  "camera_control (db rowless_world) = Some [] \<and> map_of ([] :: (int \<times> bool) list) 1 = None \<and>
   fetch_fails ok_env = None \<and>
   check_trigger_conn ok_env rowless_world =
     (Inr (JSONResponse (Trigger False) 200),
      rowless_world\<lparr>open_conns := open_conns rowless_world - 1,
                     trace := trace rowless_world @ [Fetchrow, Close]\<rparr>)"
proof -
  have a: "camera_control (db rowless_world) = Some []" by (simp add: rowless_world_def)
  have b: "map_of ([] :: (int \<times> bool) list) 1 = None" by simp
  have c: "fetch_fails ok_env = None" by (simp add: ok_env_def)
  show ?thesis using a b c check_trigger_row_absent [OF a b c] by simp
qed

text \<open>
  C3, as amended. For an authenticated request: in the upload and the listing, a failing
  blob write and a failing statement on the acquired connection are caught in the handler
  and answered with status 500 and the error's text; a failure to acquire the connection
  (the connect or the schema statement) is answered with status 500 by every operation, and
  the body then carries the fixed text \<open>Could not connect to the database.\<close>, not the
  error's text.
\<close>

theorem storage_errors_answered_500:
  assumes "API_KEY = Some k" and "x_api_key req = Some k" and "k \<noteq> []"
  shows
    "(route req = Upload \<and> payload req \<noteq> [] \<and> put_result e = Inl t \<longrightarrow>
        fst (serve API_KEY e req w) = JSONResponse (Error t) 500) \<and>
     (route req = Upload \<and> payload req \<noteq> [] \<and> put_result e = Inr url \<and>
      connect_fails e = None \<and> schema_fails e = None \<and> execute_fails e = Some t \<longrightarrow>
        fst (serve API_KEY e req w) = JSONResponse (Error t) 500) \<and>
     (route req = ListImages \<and> connect_fails e = None \<and> schema_fails e = None \<and>
      fetch_fails e = Some t \<longrightarrow>
        fst (serve API_KEY e req w) = JSONResponse (Error t) 500) \<and>
     ((connect_fails e = Some t \<or> (connect_fails e = None \<and> schema_fails e = Some t)) \<and>
      (route req = Upload \<longrightarrow> payload req \<noteq> [] \<and> put_result e = Inr url) \<longrightarrow>
        fst (serve API_KEY e req w) =
          (if route req = Upload \<or> route req = ListImages
           then JSONResponse (Error ''500: Could not connect to the database.'') 500
           else JSONResponse (Detail ''Could not connect to the database.'') 500))"
proof -
  note s = serve_handler [OF assms, of e w]
  have a: "route req = Upload \<and> payload req \<noteq> [] \<and> put_result e = Inl t \<longrightarrow>
        fst (serve API_KEY e req w) = JSONResponse (Error t) 500"
    using s by (auto simp add: upload_image_put_fails)
  have b: "route req = Upload \<and> payload req \<noteq> [] \<and> put_result e = Inr url \<and>
      connect_fails e = None \<and> schema_fails e = None \<and> execute_fails e = Some t \<longrightarrow>
        fst (serve API_KEY e req w) = JSONResponse (Error t) 500"
    using s by (auto simp add: upload_image_insert_fails)
  have c: "route req = ListImages \<and> connect_fails e = None \<and> schema_fails e = None \<and>
      fetch_fails e = Some t \<longrightarrow>
        fst (serve API_KEY e req w) = JSONResponse (Error t) 500"
    using s by (auto simp add: get_images_fetch_fails)
  have d: "(connect_fails e = Some t \<or> (connect_fails e = None \<and> schema_fails e = Some t)) \<and>
      (route req = Upload \<longrightarrow> payload req \<noteq> [] \<and> put_result e = Inr url) \<longrightarrow>
        fst (serve API_KEY e req w) =
          (if route req = Upload \<or> route req = ListImages
           then JSONResponse (Error ''500: Could not connect to the database.'') 500
           else JSONResponse (Detail ''Could not connect to the database.'') 500)"
  proof (intro impI, elim conjE)
    assume f: "connect_fails e = Some t \<or> (connect_fails e = None \<and> schema_fails e = Some t)"
      and u: "route req = Upload \<longrightarrow> payload req \<noteq> [] \<and> put_result e = Inr url"
    show "fst (serve API_KEY e req w) =
          (if route req = Upload \<or> route req = ListImages
           then JSONResponse (Error ''500: Could not connect to the database.'') 500
           else JSONResponse (Detail ''Could not connect to the database.'') 500)"
      using s u
      by (cases "route req")
         (simp_all add: trigger_capture_connection_fails [OF f]
            check_trigger_connection_fails [OF f] get_images_connection_fails [OF f]
            upload_image_connection_fails [OF _ _ f])
  qed
  from a b c d show ?thesis by blast
qed

theorem storage_errors_answered_500_witness:
  "fst (serve (Some ''secret'') put_fails_env upload_request initial_world) =
     JSONResponse (Error ''blob store unavailable'') 500 \<and>
   fst (serve (Some ''secret'') update_fails_env upload_request initial_world) =
     JSONResponse (Error ''deadlock detected'') 500 \<and>
   fst (serve (Some ''secret'') fetch_fails_env list_request initial_world) =
     JSONResponse (Error ''statement timeout'') 500 \<and>
   fst (serve (Some ''secret'') connect_fails_env capture_request initial_world) =
     JSONResponse (Detail ''Could not connect to the database.'') 500 \<and>
   fst (serve (Some ''secret'') connect_fails_env list_request initial_world) =
     JSONResponse (Error ''500: Could not connect to the database.'') 500"
proof -
  have a: "fst (serve (Some ''secret'') put_fails_env upload_request initial_world) =
     JSONResponse (Error ''blob store unavailable'') 500"
    using storage_errors_answered_500 [where API_KEY = "Some ''secret''" and k = "''secret''"
        and req = upload_request and e = put_fails_env and w = initial_world
        and t = "''blob store unavailable''"]
    by (simp add: upload_request_def put_fails_env_def ok_env_def)
  have b: "fst (serve (Some ''secret'') update_fails_env upload_request initial_world) =
     JSONResponse (Error ''deadlock detected'') 500"
    using storage_errors_answered_500 [where API_KEY = "Some ''secret''" and k = "''secret''"
        and req = upload_request and e = update_fails_env and w = initial_world
        and t = "''deadlock detected''" and url = "''https://blob.example/motion-capture.jpg''"]
    by (simp add: upload_request_def update_fails_env_def ok_env_def)
  have c: "fst (serve (Some ''secret'') fetch_fails_env list_request initial_world) =
     JSONResponse (Error ''statement timeout'') 500"
    using storage_errors_answered_500 [where API_KEY = "Some ''secret''" and k = "''secret''"
        and req = list_request and e = fetch_fails_env and w = initial_world
        and t = "''statement timeout''"]
    by (simp add: list_request_def fetch_fails_env_def ok_env_def)
  have d: "fst (serve (Some ''secret'') connect_fails_env capture_request initial_world) =
     JSONResponse (Detail ''Could not connect to the database.'') 500"
    using storage_errors_answered_500 [where API_KEY = "Some ''secret''" and k = "''secret''"
        and req = capture_request and e = connect_fails_env and w = initial_world
        and t = "''connection refused''"]
    by (simp add: capture_request_def connect_fails_env_def ok_env_def)
  have e: "fst (serve (Some ''secret'') connect_fails_env list_request initial_world) =
     JSONResponse (Error ''500: Could not connect to the database.'') 500"
    using storage_errors_answered_500 [where API_KEY = "Some ''secret''" and k = "''secret''"
        and req = list_request and e = connect_fails_env and w = initial_world
        and t = "''connection refused''"]
    by (simp add: list_request_def connect_fails_env_def ok_env_def)
  from a b c d e show ?thesis
    by simp
qed

text \<open>
  C3, as stated, fails: \<open>get_db_connection\<close> prints the error and raises a 500 with a
  fixed detail, so the body of the answer does not carry the text of a connection error.
\<close>

theorem connect_error_text_lost_counterexample:
  "connect_fails connect_fails_env = Some ''connection refused'' \<and>
   content (fst (serve (Some ''secret'') connect_fails_env list_request initial_world)) \<noteq>
     Error ''connection refused'' \<and>
   serve (Some ''secret'') connect_fails_env list_request initial_world =
     (\<lparr>status_code = 500, content = Error ''500: Could not connect to the database.''\<rparr>,
      initial_world
        \<lparr>trace := [Connect],
         console := [''Database connection error: connection refused'',
           ''An error occurred while fetching images: 500: Could not connect to the database.'']\<rparr>)"
  by (simp add: serve_def api_key_header_def verify_api_key_def list_request_def
      connect_fails_env_def ok_env_def initial_world_def get_images_def get_images_try_def
      get_db_connection_def asyncpg_connect_def called_def print_def dec_500 JSONResponse_def)

text \<open>
  C6. For a non-empty payload, when the blob write and the database calls succeed: the
  answer is status 201 with the URL the blob store returned; the bytes are written once,
  publicly readable, under \<open>motion-capture-\<close>, the clock reading and \<open>.jpg\<close>; one
  image row is added, with that URL and that clock reading; and the name has the layout
  \<open>motion-capture-YYYYMMDD_HHMMSS_ffffff.jpg\<close> whose digits spell the row's timestamp,
  to the microsecond.
\<close>

theorem upload_stores_blob_and_record:
  assumes "image_bytes \<noteq> []" and "no_db_failure e" and "put_result e = Inr url"
    and "valid_datetime (utc_now e)"
  shows "fst (upload_image e image_bytes w) =
           Inr (JSONResponse (Uploaded ''Image uploaded successfully'' url) 201) \<and>
         blobs (snd (upload_image e image_bytes w)) =
           blobs w @ [\<lparr>pathname = ''motion-capture-'' @ strftime (utc_now e) @ ''.jpg'',
                        data = image_bytes, blob_access = Public\<rparr>] \<and>
         map (\<lambda>r. (image_url r, captured_at r)) (image_rows (db (snd (upload_image e image_bytes w)))) =
           map (\<lambda>r. (image_url r, captured_at r)) (image_rows (db w)) @ [(url, utc_now e)] \<and>
         parse_capture_name (''motion-capture-'' @ strftime (utc_now e) @ ''.jpg'') =
           Some (utc_now e)"
proof -
  from upload_image_ok [OF assms(2,3,1), of w] obtain d' n where
    u: "upload_image e image_bytes w =
           (Inr (JSONResponse (Uploaded ''Image uploaded successfully'' url) 201),
            w\<lparr>db := d',
               blobs := blobs w @
                 [\<lparr>pathname = ''motion-capture-'' @ strftime (utc_now e) @ ''.jpg'',
                   data = image_bytes, blob_access = Public\<rparr>],
               trace := trace w @
                 [Put (''motion-capture-'' @ strftime (utc_now e) @ ''.jpg'') image_bytes Public,
                  Connect, Execute CreateTables, Execute (InsertImage url (utc_now e)), Close]\<rparr>)"
    and m: "motion_images d' =
             Some (image_rows (db w) @ [\<lparr>row_id = n, image_url = url, captured_at = utc_now e\<rparr>])"
    by blast
  from m have "image_rows d' =
      image_rows (db w) @ [\<lparr>row_id = n, image_url = url, captured_at = utc_now e\<rparr>]"
    by (simp add: image_rows_def)
  with u parse_capture_name_strftime [OF assms(4)] show ?thesis
    by simp
qed

theorem upload_stores_blob_and_record_witness:
  "no_db_failure ok_env \<and> valid_datetime (utc_now ok_env) \<and>
   fst (upload_image ok_env [255, 216, 255] initial_world) =
     Inr (JSONResponse (Uploaded ''Image uploaded successfully''
            ''https://blob.example/motion-capture.jpg'') 201) \<and>
   blobs (snd (upload_image ok_env [255, 216, 255] initial_world)) =
     [\<lparr>pathname = ''motion-capture-20240517_083009_123456.jpg'', data = [255, 216, 255],
       blob_access = Public\<rparr>] \<and>
   map (\<lambda>r. (image_url r, captured_at r))
     (image_rows (db (snd (upload_image ok_env [255, 216, 255] initial_world)))) =
     [(''https://blob.example/motion-capture.jpg'', utc_now ok_env)] \<and>
   parse_capture_name ''motion-capture-20240517_083009_123456.jpg'' = Some (utc_now ok_env)"
proof -
  have h: "no_db_failure ok_env" "valid_datetime (utc_now ok_env)"
    "put_result ok_env = Inr ''https://blob.example/motion-capture.jpg''"
    "[255, 216, 255] \<noteq> ([] :: byte list)"
    by (simp_all add: no_db_failure_def valid_datetime_def ok_env_def)
  have n: "''motion-capture-'' @ strftime (utc_now ok_env) @ ''.jpg'' =
      ''motion-capture-20240517_083009_123456.jpg''"
    by (simp add: strftime_def ok_env_def zfill_def dec.simps digit_char_def)
  have i: "image_rows (db initial_world) = []" "blobs initial_world = []"
    by (simp_all add: initial_world_def empty_database_def image_rows_def)
  from upload_stores_blob_and_record [OF h(4,1,3,2), of initial_world] h(1,2) show ?thesis
    unfolding n i by simp
qed

text \<open>
  C7. When no database call fails, the listing answers with every stored image row, each
  once (the rows listed are a permutation of the rows stored), the later timestamp first.
  On a store without images the list is empty, and after \<open>N\<close> successful uploads into
  such a store it has \<open>N\<close> entries.
\<close>

theorem get_images_lists_all_descending:
  assumes "no_db_failure e"
  shows "fst (get_images e w) =
           Inr (JSONResponse
                  (Images (map (\<lambda>r. (image_url r, isoformat (captured_at r)))
                            (order_by_captured_at_desc (image_rows (db w))))) 200) \<and>
         mset (order_by_captured_at_desc (image_rows (db w))) = mset (image_rows (db w)) \<and>
         sorted_wrt (\<lambda>a b. dt_key (captured_at b) \<le> dt_key (captured_at a))
           (order_by_captured_at_desc (image_rows (db w))) \<and>
         (image_rows (db w) = [] \<longrightarrow>
            fst (get_images e w) = Inr (JSONResponse (Images []) 200)) \<and>
         (image_rows (db w) = [] \<and> list_all upload_succeeds us \<longrightarrow>
            (\<exists>xs. fst (get_images e (upload_all us w)) = Inr (JSONResponse (Images xs) 200) \<and>
                  length xs = length us))"
proof -
  have a: "fst (get_images e w) =
           Inr (JSONResponse
                  (Images (map (\<lambda>r. (image_url r, isoformat (captured_at r)))
                            (order_by_captured_at_desc (image_rows (db w))))) 200)" for w
    using get_images_ok [OF assms, of w] by auto
  have b: "image_rows (db w) = [] \<longrightarrow>
            fst (get_images e w) = Inr (JSONResponse (Images []) 200)"
    using a [of w] by (simp add: order_by_captured_at_desc_def)
  have c: "image_rows (db w) = [] \<and> list_all upload_succeeds us \<longrightarrow>
            (\<exists>xs. fst (get_images e (upload_all us w)) = Inr (JSONResponse (Images xs) 200) \<and>
                  length xs = length us)"
    using upload_all_rows [of us w] a [of "upload_all us w"]
    by (auto simp add: order_by_captured_at_desc_def)
  from a [of w] b c order_by_captured_at_desc_mset order_by_captured_at_desc_sorted
  show ?thesis
    by blast
qed

theorem get_images_lists_all_descending_witness:
  "no_db_failure ok_env \<and> image_rows (db initial_world) = [] \<and>
   list_all upload_succeeds [(ok_env, [255, 216, 255]), (ok_env, [255, 216])] \<and>
   fst (get_images ok_env two_images_world) =
     Inr (JSONResponse
       (Images [(''https://blob.example/b.jpg'', ''2024-05-17T08:30:09.123456+00:00''),
                (''https://blob.example/a.jpg'', ''2024-05-17T08:30:09+00:00'')]) 200) \<and>
   fst (get_images ok_env initial_world) = Inr (JSONResponse (Images []) 200) \<and>
   (\<exists>xs. fst (get_images ok_env
              (upload_all [(ok_env, [255, 216, 255]), (ok_env, [255, 216])] initial_world)) =
           Inr (JSONResponse (Images xs) 200) \<and> length xs = 2)"
proof -
  have h: "no_db_failure ok_env"
    by (simp add: no_db_failure_def ok_env_def)
  have i: "image_rows (db initial_world) = []"
    by (simp add: initial_world_def empty_database_def image_rows_def)
  have u: "list_all upload_succeeds [(ok_env, [255, 216, 255]), (ok_env, [255, 216])]"
    by (simp add: upload_succeeds_def no_db_failure_def ok_env_def)
  have o: "order_by_captured_at_desc (image_rows (db two_images_world)) =
      rev (image_rows (db two_images_world))"
    by (simp add: order_by_captured_at_desc_def two_images_world_def image_rows_def dt_key_def
        less_eq_prod_def)
  have a: "fst (get_images ok_env two_images_world) =
     Inr (JSONResponse
       (Images [(''https://blob.example/b.jpg'', ''2024-05-17T08:30:09.123456+00:00''),
                (''https://blob.example/a.jpg'', ''2024-05-17T08:30:09+00:00'')]) 200)"
    using get_images_lists_all_descending [OF h, of two_images_world "[]"]
    unfolding o
    by (simp add: two_images_world_def image_rows_def isoformat_def zfill_def dec.simps
        digit_char_def)
  from get_images_lists_all_descending [OF h, of initial_world
      "[(ok_env, [255, 216, 255]), (ok_env, [255, 216])]"] h i u a
  show ?thesis
    by (simp add: numeral_2_eq_2)
qed



end
